theory Spec2Isabelle
  imports Main
begin

text \<open>
  The package \<open>autoupgrade\<close> lets a Go binary install the latest version of itself with
  \<open>go install\<close>. Its source is one file, \<open>autoupgrade.go\<close>: the target builder \<open>fullPath\<close>, the
  synchronous \<open>Upgrade\<close>, its background variant \<open>UpgradeBackground\<close>, and the accessors
  \<open>DidUpgrade\<close> and \<open>NewBuildInfo\<close> of the result. This theory embeds each of them and
  proves what they do.
\<close>

section \<open>The install target: \<open>fullPath\<close> over Go's \<open>path.Join\<close>\<close>

text \<open>
  Go strings are byte sequences, and so is \<^typ>\<open>string\<close>. The source is

  \<^verbatim>\<open>func fullPath(modulePath, packagePath, version string) string {
      ret := path.Join(modulePath, packagePath+"@"+version)
      return ret
  }\<close>

  \<open>path.Join\<close> and \<open>path.Clean\<close> belong to Go's standard library (package \<open>path\<close>), not to
  this repository; they are transcribed here from the library's source. The library writes
  the cleaned path through a \<open>lazybuf\<close>, which is an allocation-saving representation of an
  output byte buffer of which only the first \<open>w\<close> bytes count; the model keeps that buffer
  as the list \<open>out\<close>, so \<open>out.w\<close> is \<^term>\<open>length out\<close>.
\<close>

text \<open>\<open>r+k == n || path[r+k] == '/'\<close>, on the rest of the path from index \<open>r+k\<close>.\<close>

definition at_end_or_slash :: "string \<Rightarrow> bool" where
  "at_end_or_slash rest = (case rest of [] \<Rightarrow> True | x # _ \<Rightarrow> x = CHR ''/'')"

text \<open>
  The inner loop of the \<open>..\<close> case, after \<open>out.w--\<close>:
  \<^verbatim>\<open>for out.w > dotdot && out.index(out.w) != '/' { out.w-- }\<close>
\<close>

fun backtrack :: "nat \<Rightarrow> string \<Rightarrow> nat \<Rightarrow> nat" where
  "backtrack dotdot buf w =
     (if w > dotdot \<and> buf ! w \<noteq> CHR ''/'' then backtrack dotdot buf (w - 1) else w)"

declare backtrack.simps [simp del]

text \<open>
  The main loop of \<open>path.Clean\<close>, \<^verbatim>\<open>for r < n { switch { ... } }\<close>; the last argument is
  \<open>path[r:]\<close>.
\<close>

function Clean_loop :: "bool \<Rightarrow> nat \<Rightarrow> string \<Rightarrow> string \<Rightarrow> string" where
  "Clean_loop rooted dotdot out [] = out"
| "Clean_loop rooted dotdot out (c # cs) =
     (if c = CHR ''/'' then
        \<comment> \<open>empty path element\<close>
        Clean_loop rooted dotdot out cs
      else if c = CHR ''.'' \<and> at_end_or_slash cs then
        \<comment> \<open>\<open>.\<close> element\<close>
        Clean_loop rooted dotdot out cs
      else if c = CHR ''.'' \<and> (case cs of [] \<Rightarrow> False
                                  | d # ds \<Rightarrow> d = CHR ''.'' \<and> at_end_or_slash ds) then
        \<comment> \<open>\<open>..\<close> element: remove to last \<open>/\<close>\<close>
        (if length out > dotdot then
           \<comment> \<open>can backtrack\<close>
           Clean_loop rooted dotdot
             (take (backtrack dotdot out (length out - 1)) out) (tl cs)
         else if \<not> rooted then
           \<comment> \<open>cannot backtrack, but not rooted, so append \<open>..\<close> element\<close>
           (let out' = (if length out > 0 then out @ ''/'' else out) @ ''..''
            in Clean_loop rooted (length out') out' (tl cs))
         else Clean_loop rooted dotdot out (tl cs))
      else
        \<comment> \<open>real path element: add slash if needed, copy element\<close>
        (let out' = (if rooted \<and> length out \<noteq> 1 \<or> \<not> rooted \<and> length out \<noteq> 0
                     then out @ ''/'' else out)
         in Clean_loop rooted dotdot
              (out' @ takeWhile (\<lambda>x. x \<noteq> CHR ''/'') (c # cs))
              (dropWhile (\<lambda>x. x \<noteq> CHR ''/'') (c # cs))))"
  by pat_completeness auto

termination
proof (relation "measure (\<lambda>(rooted, dotdot, out, rest). length rest)")
  fix c :: char and cs :: string
  assume "c \<noteq> CHR ''/''"
  then have "dropWhile (\<lambda>x. x \<noteq> CHR ''/'') (c # cs) = dropWhile (\<lambda>x. x \<noteq> CHR ''/'') cs"
    by simp
  moreover have "length (dropWhile (\<lambda>x. x \<noteq> CHR ''/'') cs) \<le> length cs"
    by (rule length_dropWhile_le)
  ultimately show "\<And>rooted dotdot out x.
      ((rooted, dotdot, out @ takeWhile (\<lambda>x. x \<noteq> CHR ''/'') (c # cs),
        dropWhile (\<lambda>x. x \<noteq> CHR ''/'') (c # cs)), (rooted, dotdot, x, c # cs))
      \<in> measure (\<lambda>(rooted, dotdot, out, rest). length rest)"
    by simp
qed auto

text \<open>
  \<^verbatim>\<open>func Clean(path string) string\<close>: the empty path is \<open>.\<close>; a rooted path starts the
  buffer with \<open>/\<close> and \<open>r, dotdot = 1, 1\<close>; an empty result is \<open>.\<close>.
\<close>

definition Clean :: "string \<Rightarrow> string" where
  "Clean path =
     (case path of
        [] \<Rightarrow> ''.''
      | p0 # ps \<Rightarrow>
          (let rooted = (p0 = CHR ''/'');
               out = (if rooted then Clean_loop True 1 ''/'' ps
                      else Clean_loop False 0 [] path)
           in if length out = 0 then ''.'' else out))"

text \<open>
  \<^verbatim>\<open>func Join(elem ...string) string\<close>: empty elements are ignored until the buffer is
  non-empty, the others are joined by \<open>/\<close>, and the result is cleaned; if all elements are
  empty the result is the empty string.
\<close>

fun Join_loop :: "string \<Rightarrow> string list \<Rightarrow> string" where
  "Join_loop buf [] = buf"
| "Join_loop buf (e # es) =
     (if length buf > 0 \<or> e \<noteq> [] then
        Join_loop ((if length buf > 0 then buf @ ''/'' else buf) @ e) es
      else Join_loop buf es)"

definition Join :: "string list \<Rightarrow> string" where
  "Join elem =
     (if sum_list (map length elem) = 0 then []
      else Clean (Join_loop [] elem))"

definition fullPath :: "string \<Rightarrow> string \<Rightarrow> string \<Rightarrow> string" where
  "fullPath modulePath packagePath version =
     Join [modulePath, packagePath @ ''@'' @ version]"


section \<open>Data model\<close>

text \<open>
  A Go \<open>error\<close> is an interface value that is \<open>nil\<close> or not: a field or result of that
  type is an \<open>error option\<close>, \<open>None\<close> for \<open>nil\<close>. A \<open>*debug.BuildInfo\<close> is likewise an
  option. Of \<open>debug.Module\<close> and \<open>debug.BuildInfo\<close> the fields kept are those the program or
  its callers read (\<open>Main.Path\<close>, \<open>Main.Version\<close>), with \<open>Sum\<close> and \<open>GoVersion\<close> beside them.
\<close>

datatype error = Error string

record Module =
  Path :: string
  Version :: string
  Sum :: string

record BuildInfo =
  GoVersion :: string
  Main :: Module

text \<open>
  \<^verbatim>\<open>type UpgradeResult struct {
      CurrentInfo *debug.BuildInfo
      ExitError   error
      once        sync.Once
      newInfo     *debug.BuildInfo
      newInfoErr  error
  }\<close>
  Of the \<open>sync.Once\<close> the sequential model keeps its \<open>done\<close> flag.
\<close>

record UpgradeResult =
  CurrentInfo :: "BuildInfo option"
  ExitError :: "error option"
  once :: bool
  newInfo :: "BuildInfo option"
  newInfoErr :: "error option"

text \<open>The composite literal \<^verbatim>\<open>&UpgradeResult{}\<close>: every field has its zero value.\<close>

definition UpgradeResult_zero :: UpgradeResult where
  "UpgradeResult_zero =
     \<lparr>CurrentInfo = None, ExitError = None, once = False, newInfo = None, newInfoErr = None\<rparr>"

subsection \<open>The collaborators outside the program\<close>

text \<open>
  Four calls leave the program: \<open>debug.ReadBuildInfo()\<close>, \<open>cmd.Run()\<close> of
  \<open>exec.CommandContext(ctx, "go", "install", target)\<close>, \<open>os.Executable()\<close> and
  \<open>buildinfo.ReadFile(path)\<close>. What each answers is a parameter: the environment gives the
  answer of the \<open>k\<close>-th call of each (so two calls may answer differently, as they may
  after the binary has been replaced), and the world counts the calls made so far and keeps
  their arguments. \<open>buildinfo.ReadFile\<close> and \<open>os.Executable\<close> return a value or a non-nil
  error; whether \<open>cmd.Run\<close> fails by exit status, by the missing executable or by the
  cancellation of \<open>ctx\<close> is in the answer it gives. Every call is taken to return:
  \<open>cmd.Run\<close> returns when the process has ended, by itself or killed when \<open>ctx\<close> is
  cancelled. The output of the process is discarded by the program and is not modelled.
\<close>

record env =
  debug_ReadBuildInfo :: "nat \<Rightarrow> BuildInfo option"
  cmd_Run :: "nat \<Rightarrow> string list \<Rightarrow> error option"
  os_Executable :: "nat \<Rightarrow> error + string"
  buildinfo_ReadFile :: "nat \<Rightarrow> string \<Rightarrow> error + BuildInfo"

record world =
  ReadBuildInfo_calls :: nat
  runs :: "string list list"
  Executable_calls :: nat
  ReadFile_calls :: "string list"

definition world_start :: world where
  "world_start = \<lparr>ReadBuildInfo_calls = 0, runs = [], Executable_calls = 0, ReadFile_calls = []\<rparr>"

section \<open>The synchronous attempt\<close>

text \<open>
  \<^verbatim>\<open>func Upgrade(ctx context.Context, packagePath string) *UpgradeResult\<close>. The context is
  only handed to \<open>exec.CommandContext\<close>; its effect is in the answer of \<open>cmd.Run\<close>.
\<close>

definition Upgrade :: "env \<Rightarrow> world \<Rightarrow> string \<Rightarrow> UpgradeResult \<times> world" where
  "Upgrade e w packagePath =
     (let w1 = w\<lparr>ReadBuildInfo_calls := ReadBuildInfo_calls w + 1\<rparr> in
      case debug_ReadBuildInfo e (ReadBuildInfo_calls w) of
        None \<Rightarrow> (UpgradeResult_zero, w1)
      | Some info \<Rightarrow>
          if Version (Main info) = ''(devel)'' then
            (UpgradeResult_zero\<lparr>CurrentInfo := Some info\<rparr>, w1)
          else
            (let modulePath = Path (Main info) in
             if modulePath = [] then
               (UpgradeResult_zero\<lparr>CurrentInfo := Some info\<rparr>, w1)
             else
               (let argv = [''go'', ''install'', fullPath modulePath packagePath ''latest''];
                    err = cmd_Run e (length (runs w1)) argv;
                    w2 = w1\<lparr>runs := runs w1 @ [argv]\<rparr>
                in (UpgradeResult_zero\<lparr>CurrentInfo := Some info, ExitError := err\<rparr>, w2))))"

section \<open>The accessors of the result\<close>

text \<open>
  The function literal handed to \<open>u.once.Do\<close> in \<open>NewBuildInfo\<close>:
  \<^verbatim>\<open>execPath, err := os.Executable()
  if err != nil { u.newInfoErr = err; return }
  u.newInfo, u.newInfoErr = buildinfo.ReadFile(execPath)\<close>
\<close>

definition resolve :: "env \<Rightarrow> UpgradeResult \<times> world \<Rightarrow> UpgradeResult \<times> world" where
  "resolve e = (\<lambda>(u, w).
     (let w1 = w\<lparr>Executable_calls := Executable_calls w + 1\<rparr> in
      case os_Executable e (Executable_calls w) of
        Inl err \<Rightarrow> (u\<lparr>newInfoErr := Some err\<rparr>, w1)
      | Inr execPath \<Rightarrow>
          (let w2 = w1\<lparr>ReadFile_calls := ReadFile_calls w1 @ [execPath]\<rparr> in
           case buildinfo_ReadFile e (length (ReadFile_calls w1)) execPath of
             Inl err \<Rightarrow> (u\<lparr>newInfo := None, newInfoErr := Some err\<rparr>, w2)
           | Inr info \<Rightarrow> (u\<lparr>newInfo := Some info, newInfoErr := None\<rparr>, w2))))"

text \<open>
  \<^verbatim>\<open>func (u *UpgradeResult) NewBuildInfo() (*debug.BuildInfo, error) {
      u.once.Do(func() { ... })
      return u.newInfo, u.newInfoErr
  }\<close>
  In one thread \<open>once.Do(f)\<close> runs \<open>f\<close> if the flag is not set and sets it when \<open>f\<close> has
  returned. The method changes the result it is called on, so the model returns it too.
\<close>

definition NewBuildInfo ::
  "env \<Rightarrow> UpgradeResult \<times> world
     \<Rightarrow> (BuildInfo option \<times> error option) \<times> UpgradeResult \<times> world" where
  "NewBuildInfo e = (\<lambda>(u, w).
     (let (u1, w1) = (if once u then (u, w)
                      else (let (u', w') = resolve e (u, w) in (u'\<lparr>once := True\<rparr>, w')))
      in ((newInfo u1, newInfoErr u1), u1, w1)))"

text \<open>
  \<^verbatim>\<open>func (u *UpgradeResult) DidUpgrade() bool {
      if u.CurrentInfo == nil { return false }
      if u.CurrentInfo.Main.Version == "(devel)" { return false }
      newInfo, _ := u.NewBuildInfo()
      return newInfo != nil && newInfo.Main.Version != u.CurrentInfo.Main.Version
  }\<close>
\<close>

definition DidUpgrade :: "env \<Rightarrow> UpgradeResult \<times> world \<Rightarrow> bool \<times> UpgradeResult \<times> world" where
  "DidUpgrade e = (\<lambda>(u, w).
     case CurrentInfo u of
       None \<Rightarrow> (False, u, w)
     | Some cur \<Rightarrow>
         if Version (Main cur) = ''(devel)'' then (False, u, w)
         else
           (let ((newInfo', _), u1, w1) = NewBuildInfo e (u, w) in
            ((case newInfo' of
                None \<Rightarrow> False
              | Some new \<Rightarrow> Version (Main new) \<noteq> Version (Main cur)), u1, w1)))"

section \<open>The background attempt\<close>

subsection \<open>Channels\<close>

text \<open>
  A channel holds the values sent and not yet received, its capacity and whether it is
  closed. An operation of a goroutine finishes, blocks or panics: a send on a closed
  channel and a second \<open>close\<close> panic; a send blocks when the buffer is full (no receiver
  is waiting in the model, so the model blocks at least where the program does); a
  receive takes the oldest value, reports a closed and drained channel by \<open>None\<close>, and
  blocks on an open empty one.
\<close>

record 'a chan =
  buf :: "'a list"
  cap :: nat
  closed :: bool

datatype status = Finished | Blocked | Panicked

definition make_chan :: "nat \<Rightarrow> 'a chan" where
  "make_chan n = \<lparr>buf = [], cap = n, closed = False\<rparr>"

definition chan_send :: "'a chan \<Rightarrow> 'a \<Rightarrow> status \<times> 'a chan" where
  "chan_send ch v =
     (if closed ch then (Panicked, ch)
      else if length (buf ch) < cap ch then (Finished, ch\<lparr>buf := buf ch @ [v]\<rparr>)
      else (Blocked, ch))"

definition chan_close :: "'a chan \<Rightarrow> status \<times> 'a chan" where
  "chan_close ch = (if closed ch then (Panicked, ch) else (Finished, ch\<lparr>closed := True\<rparr>))"

definition chan_recv :: "'a chan \<Rightarrow> status \<times> 'a option \<times> 'a chan" where
  "chan_recv ch =
     (case buf ch of
        v # vs \<Rightarrow> (Finished, Some v, ch\<lparr>buf := vs\<rparr>)
      | [] \<Rightarrow> if closed ch then (Finished, None, ch) else (Blocked, None, ch))"

subsection \<open>The goroutine of \<open>UpgradeBackground\<close>\<close>

text \<open>
  \<^verbatim>\<open>go func() {
      defer close(ch)
      select {
      case <-ctx.Done():
          ch <- &UpgradeResult{ExitError: ctx.Err()}
      case ch <- Upgrade(ctx, packagePath):
      }
  }()\<close>

  On entering a \<open>select\<close>, Go evaluates the right-hand sides of its send cases, so
  \<open>Upgrade(ctx, packagePath)\<close> runs to its end first. Then the cases that can proceed are
  found: the receive from \<open>ctx.Done()\<close> if the context is done, the send if the channel takes
  a value (or is closed, when the send proceeds to its panic). One of them is chosen at
  random; if none can proceed the goroutine waits. The parameter \<open>ctx\<close> is the state of the
  context at that moment, \<open>None\<close> while it is not done and \<open>Some err\<close> with \<open>err\<close> the
  value of \<open>ctx.Err()\<close> once it is; \<open>pick\<close> is the random choice, \<open>True\<close> for the first
  case. The deferred \<open>close(ch)\<close> runs when the function returns or panics.
\<close>

definition UpgradeBackground_go ::
  "env \<Rightarrow> world \<Rightarrow> error option \<Rightarrow> bool \<Rightarrow> string \<Rightarrow> UpgradeResult chan
     \<Rightarrow> status \<times> UpgradeResult chan \<times> world" where
  "UpgradeBackground_go e w ctx pick packagePath ch =
     (let (r, w1) = Upgrade e w packagePath;
          done_ready = (ctx \<noteq> None);
          send_ready = (closed ch \<or> length (buf ch) < cap ch);
          (st, ch1) =
            (if done_ready \<and> (\<not> send_ready \<or> pick) then
               chan_send ch (UpgradeResult_zero\<lparr>ExitError := ctx\<rparr>)
             else if send_ready then chan_send ch r
             else (Blocked, ch))
      in case st of
           Blocked \<Rightarrow> (Blocked, ch1, w1)
         | Finished \<Rightarrow> (let (st2, ch2) = chan_close ch1 in (st2, ch2, w1))
         | Panicked \<Rightarrow> (Panicked, snd (chan_close ch1), w1))"

text \<open>
  \<^verbatim>\<open>func UpgradeBackground(ctx context.Context, packagePath string) <-chan *UpgradeResult {
      ch := make(chan *UpgradeResult, 1)
      go func() { ... }()
      return ch
  }\<close>
  The model gives the channel as the goroutine leaves it.
\<close>

definition UpgradeBackground ::
  "env \<Rightarrow> world \<Rightarrow> error option \<Rightarrow> bool \<Rightarrow> string \<Rightarrow> status \<times> UpgradeResult chan \<times> world" where
  "UpgradeBackground e w ctx pick packagePath =
     UpgradeBackground_go e w ctx pick packagePath (make_chan 1)"

section \<open>\<open>NewBuildInfo\<close> called from several goroutines\<close>

text \<open>
  \<open>sync.Once\<close> is Go's standard library:
  \<^verbatim>\<open>func (o *Once) Do(f func()) {
      if o.done.Load() == 0 { o.doSlow(f) }
  }
  func (o *Once) doSlow(f func()) {
      o.m.Lock()
      defer o.m.Unlock()
      if o.done.Load() == 0 {
          defer o.done.Store(1)
          f()
      }
  }\<close>
  Each goroutine that calls \<open>NewBuildInfo\<close> is at one of the places below; a step of a
  goroutine executes the one atomic load, lock, call, field store, atomic store or unlock
  at its place. The two fields written by the tuple assignment and the two fields read by
  the \<open>return\<close> are separate steps.
\<close>

datatype pc =
    Idle
  | Once_load
  | Once_Lock
  | Once_reload
  | F_Executable
  | F_store_err error
  | F_ReadFile string
  | F_store_newInfo "error + BuildInfo"
  | F_store_newInfoErr "error + BuildInfo"
  | Once_Store
  | Once_Unlock
  | Return_newInfo
  | Return_newInfoErr "BuildInfo option"

text \<open>
  The shared state: the result (its \<open>once\<close> field is the \<open>done\<close> flag of the \<open>sync.Once\<close>),
  the holder of the mutex of the \<open>sync.Once\<close>, the place of every goroutine, the world, and
  the pairs returned so far, each with the goroutine it was returned to.
\<close>

record shared =
  res :: UpgradeResult
  mutex :: "nat option"
  pcs :: "nat \<Rightarrow> pc"
  wld :: world
  returned :: "(nat \<times> BuildInfo option \<times> error option) list"

definition goto :: "nat \<Rightarrow> pc \<Rightarrow> shared \<Rightarrow> shared" where
  "goto t p s = s\<lparr>pcs := (pcs s)(t := p)\<rparr>"

text \<open>
  One step of goroutine \<open>t\<close>. An idle goroutine calls \<open>NewBuildInfo\<close> (again); a goroutine
  at \<open>Lock\<close> while the mutex is held does not move.
\<close>

definition step :: "env \<Rightarrow> nat \<Rightarrow> shared \<Rightarrow> shared" where
  "step e t s =
     (case pcs s t of
        Idle \<Rightarrow> goto t Once_load s
      | Once_load \<Rightarrow> if once (res s) then goto t Return_newInfo s else goto t Once_Lock s
      | Once_Lock \<Rightarrow>
          (case mutex s of
             None \<Rightarrow> goto t Once_reload (s\<lparr>mutex := Some t\<rparr>)
           | Some _ \<Rightarrow> s)
      | Once_reload \<Rightarrow> if once (res s) then goto t Once_Unlock s else goto t F_Executable s
      | F_Executable \<Rightarrow>
          (let w = wld s;
               s1 = s\<lparr>wld := w\<lparr>Executable_calls := Executable_calls w + 1\<rparr>\<rparr>
           in case os_Executable e (Executable_calls w) of
                Inl err \<Rightarrow> goto t (F_store_err err) s1
              | Inr execPath \<Rightarrow> goto t (F_ReadFile execPath) s1)
      | F_store_err err \<Rightarrow> goto t Once_Store (s\<lparr>res := (res s)\<lparr>newInfoErr := Some err\<rparr>\<rparr>)
      | F_ReadFile execPath \<Rightarrow>
          (let w = wld s;
               s1 = s\<lparr>wld := w\<lparr>ReadFile_calls := ReadFile_calls w @ [execPath]\<rparr>\<rparr>
           in goto t (F_store_newInfo (buildinfo_ReadFile e (length (ReadFile_calls w)) execPath)) s1)
      | F_store_newInfo r \<Rightarrow>
          goto t (F_store_newInfoErr r)
            (s\<lparr>res := (res s)\<lparr>newInfo := (case r of Inl _ \<Rightarrow> None | Inr info \<Rightarrow> Some info)\<rparr>\<rparr>)
      | F_store_newInfoErr r \<Rightarrow>
          goto t Once_Store
            (s\<lparr>res := (res s)\<lparr>newInfoErr := (case r of Inl err \<Rightarrow> Some err | Inr _ \<Rightarrow> None)\<rparr>\<rparr>)
      | Once_Store \<Rightarrow> goto t Once_Unlock (s\<lparr>res := (res s)\<lparr>once := True\<rparr>\<rparr>)
      | Once_Unlock \<Rightarrow> goto t Return_newInfo (s\<lparr>mutex := None\<rparr>)
      | Return_newInfo \<Rightarrow> goto t (Return_newInfoErr (newInfo (res s))) s
      | Return_newInfoErr info \<Rightarrow>
          goto t Idle (s\<lparr>returned := returned s @ [(t, info, newInfoErr (res s))]\<rparr>))"

text \<open>A schedule is the list of the goroutines that step, in order.\<close>

definition run :: "env \<Rightarrow> nat list \<Rightarrow> shared \<Rightarrow> shared" where
  "run e sched s = foldl (\<lambda>s t. step e t s) s sched"

definition shared_start :: "UpgradeResult \<Rightarrow> world \<Rightarrow> shared" where
  "shared_start u w = \<lparr>res = u, mutex = None, pcs = (\<lambda>_. Idle), wld = w, returned = []\<rparr>"


section \<open>Invariants and sample data\<close>

text \<open>
  The three unexported fields of a result are written by \<open>NewBuildInfo\<close> only. Before
  the first call the flag is unset and both lazy fields are \<open>nil\<close>; after it exactly one
  of them is \<open>nil\<close>, as \<open>buildinfo.ReadFile\<close> gives a value or an error.
\<close>

definition lazy_inv :: "UpgradeResult \<Rightarrow> bool" where
  "lazy_inv u =
     (if once u then (newInfo u = None) = (newInfoErr u \<noteq> None)
      else newInfo u = None \<and> newInfoErr u = None)"

text \<open>\<open>n\<close> calls of \<open>NewBuildInfo\<close> in a row on one result, with the pairs they return.\<close>

fun NewBuildInfo_times ::
  "env \<Rightarrow> nat \<Rightarrow> UpgradeResult \<times> world
     \<Rightarrow> (BuildInfo option \<times> error option) list \<times> UpgradeResult \<times> world" where
  "NewBuildInfo_times e 0 s = ([], s)"
| "NewBuildInfo_times e (Suc n) s =
     (let (p, s1) = NewBuildInfo e s;
          (ps, s2) = NewBuildInfo_times e n s1
      in (p # ps, s2))"




subsection \<open>The kinds of path element\<close>

text \<open>
  The second and the third case of the loop of \<open>path.Clean\<close>, as predicates of the rest of
  the path: it starts by the element \<open>.\<close>, or by the element \<open>..\<close>.
\<close>

definition is_dot :: "string \<Rightarrow> bool" where
  "is_dot rest = (case rest of [] \<Rightarrow> False | c # cs \<Rightarrow> c = CHR ''.'' \<and> at_end_or_slash cs)"

definition is_dotdot :: "string \<Rightarrow> bool" where
  "is_dotdot rest =
     (case rest of
        c # d # ds \<Rightarrow> c = CHR ''.'' \<and> d = CHR ''.'' \<and> at_end_or_slash ds
      | _ \<Rightarrow> False)"

subsection \<open>Sample environments\<close>

text \<open>
  Build information of a module at a version, and environments whose later answers differ
  from their first ones, so that a second read would be seen.
\<close>

definition info_of :: "string \<Rightarrow> string \<Rightarrow> BuildInfo" where
  "info_of modulePath v =
     \<lparr>GoVersion = ''go1.22.0'', Main = \<lparr>Path = modulePath, Version = v, Sum = []\<rparr>\<rparr>"

definition env_sample :: "BuildInfo option \<Rightarrow> error option \<Rightarrow> env" where
  "env_sample cur exit_err =
     \<lparr>debug_ReadBuildInfo = (\<lambda>_. cur),
      cmd_Run = (\<lambda>_ _. exit_err),
      os_Executable = (\<lambda>_. Inr ''/usr/local/bin/tool''),
      buildinfo_ReadFile = (\<lambda>k _. if k = 0 then Inr (info_of ''example.com/tool'' ''v1.1.0'')
                                   else Inr (info_of ''example.com/tool'' ''v1.2.0''))\<rparr>"

definition env_no_path :: env where
  "env_no_path =
     (env_sample (Some (info_of ''example.com/tool'' ''v1.0.0'')) None)
       \<lparr>os_Executable := (\<lambda>k. if k = 0 then Inl (Error ''executable path unknown'')
                               else Inr ''/usr/local/bin/tool'')\<rparr>"

definition env_unreadable :: env where
  "env_unreadable =
     (env_sample (Some (info_of ''example.com/tool'' ''v1.0.0'')) None)
       \<lparr>buildinfo_ReadFile := (\<lambda>k _. if k = 0 then Inl (Error ''could not read Go build info'')
                                      else Inr (info_of ''example.com/tool'' ''v1.1.0''))\<rparr>"


section \<open>The install target: results\<close>

text \<open>
  The transcription of \<open>path.Clean\<close> and \<open>path.Join\<close> agrees with the library on the cases
  of the library's own test tables.
\<close>

lemma Clean_library_tests:
  "map Clean
     ['''', ''abc'', ''abc/def'', ''a/b/c'', ''.'', ''..'', ''../..'', ''../../abc'', ''/abc'', ''/'',
      ''abc/'', ''abc/def/'', ''a/b/c/'', ''./'', ''../'', ''../../'', ''/abc/'',
      ''abc//def//ghi'', ''//abc'', ''///abc'', ''//abc//'', ''abc//'',
      ''abc/./def'', ''/./abc/def'', ''abc/.'',
      ''abc/def/ghi/../jkl'', ''abc/def/../ghi/../jkl'', ''abc/def/..'', ''abc/def/../..'',
      ''/abc/def/../..'', ''abc/def/../../..'', ''/abc/def/../../..'',
      ''abc/def/../../../ghi/jkl/../../../mno'',
      ''abc/./../def'', ''abc//./../def'', ''abc/../../././../def'']
   = [''.'', ''abc'', ''abc/def'', ''a/b/c'', ''.'', ''..'', ''../..'', ''../../abc'', ''/abc'', ''/'',
      ''abc'', ''abc/def'', ''a/b/c'', ''.'', ''..'', ''../..'', ''/abc'',
      ''abc/def/ghi'', ''/abc'', ''/abc'', ''/abc'', ''abc'',
      ''abc/def'', ''/abc/def'', ''abc'',
      ''abc/def/jkl'', ''abc/jkl'', ''abc'', ''.'',
      ''/'', ''..'', ''/'',
      ''../../mno'',
      ''def'', ''def'', ''../../def'']"
  by code_simp

lemma Join_library_tests:
  "map Join
     [[], [''''], [''a''], [''a'', ''b''], [''a'', ''''], ['''', ''b''], [''/'', ''a''], [''/'', ''''],
      [''a/'', ''b''], [''a/'', ''''], ['''', '''']]
   = ['''', '''', ''a'', ''a/b'', ''a'', ''b'', ''/a'', ''/'', ''a/b'', ''a'', '''']"
  by code_simp


text \<open>
  Claim C7. For a non-empty sub-package path the builder should join the module identifier
  and the sub-package path by one separator and append \<open>@\<close> and the version tag to the
  final segment, as in \<open>fullPath "a/b" "c/d" "latest" = "a/b/c/d@latest"\<close>. The program
  appends the version to the sub-package path before it joins and normalises. For the
  non-empty sub-package path \<open>c/d/\<close> the join of module and sub-package path is \<open>a/b/c/d\<close>,
  and the target should be \<open>a/b/c/d@latest\<close>; the program gives \<open>a/b/c/d/@latest\<close>, the
  version behind a separator and not on the final segment \<open>d\<close>. For the sub-package
  paths \<open>.\<close> and \<open>c/..\<close> the join is \<open>a/b\<close>, and the program gives \<open>a/b/.@latest\<close> and
  \<open>a/b/c/..@latest\<close>, as the dots with the version behind them are no longer the elements
  \<open>.\<close> and \<open>..\<close>.
\<close>

theorem fullPath_nonempty_subPath:
  "fullPath ''a/b'' ''c/d/'' ''latest'' = ''a/b/c/d/@latest''
   \<and> Join [''a/b'', ''c/d/''] @ ''@latest'' = ''a/b/c/d@latest''
   \<and> fullPath ''a/b'' ''.'' ''latest'' = ''a/b/.@latest''
   \<and> Join [''a/b'', ''.''] @ ''@latest'' = ''a/b@latest''
   \<and> fullPath ''a/b'' ''c/..'' ''latest'' = ''a/b/c/..@latest''
   \<and> Join [''a/b'', ''c/..''] @ ''@latest'' = ''a/b@latest''"
  by code_simp

text \<open>
  The example of the claim does hold, as does the sentence of the claim for every
  sub-package path whose last segment is a name (lemma \<open>fullPath_last_segment\<close> below).
\<close>

lemma fullPath_subpackage: "fullPath ''a/b'' ''c/d'' ''latest'' = ''a/b/c/d@latest''"
  by (simp add: fullPath_def Join_def Clean_def at_end_or_slash_def)

text \<open>The repository's own test, \<open>Test_fullPath\<close>.\<close>

lemma Test_fullPath:
  "fullPath ''github.com/melt-inc/autoupgrade'' ''foo/bar'' ''latest''
     = ''github.com/melt-inc/autoupgrade/foo/bar@latest''"
  by (simp add: fullPath_def Join_def Clean_def at_end_or_slash_def)

text \<open>
  Claim C6. For the root package (empty sub-package path) the target should be the module
  identifier, \<open>@\<close> and the version tag, with no separator between them. The program
  appends \<open>@\<close> and the version to the sub-package path before it joins, so the second
  element handed to \<open>path.Join\<close> is \<open>@v1.2.3\<close>, a path element of its own, and the target
  of \<open>fullPath "a/b" "" "v1.2.3"\<close> is \<open>"a/b/@v1.2.3"\<close>, not \<open>"a/b@v1.2.3"\<close>.
\<close>

theorem fullPath_root_package: "fullPath ''a/b'' [] ''v1.2.3'' = ''a/b/@v1.2.3''"
  by (simp add: fullPath_def Join_def Clean_def at_end_or_slash_def)

text \<open>
  Claim C8. For every module identifier, sub-package path and version tag the target
  should have \<open>@\<close> and the version tag right after its last path segment, never a
  separator before the \<open>@\<close>, also when the sub-package path has redundant or trailing
  separators. The program normalises after it has appended the version to the
  sub-package path, not before: redundant separators are collapsed, but a sub-package
  path whose last segment is empty (the path is empty or ends by a separator) leaves
  \<open>@latest\<close> as a path element of its own, behind a separator. (A last segment \<open>.\<close> or
  \<open>..\<close> is kept in the target with the version behind it, see C7.)
\<close>

theorem fullPath_trailing_separator:
  "fullPath ''github.com/melt-inc/autoupgrade'' [] ''latest''
     = ''github.com/melt-inc/autoupgrade/@latest''
   \<and> fullPath ''a/b'' ''c/'' ''latest'' = ''a/b/c/@latest''
   \<and> fullPath ''a/b'' ''c//d//'' ''latest'' = ''a/b/c/d/@latest''
   \<and> fullPath ''a/b'' ''./'' ''latest'' = ''a/b/@latest''"
  by (simp add: fullPath_def Join_def Clean_def at_end_or_slash_def)

subsection \<open>Package paths that end by a name\<close>

text \<open>
  What does hold in general: if the last segment of the package path is a name, the
  version lands where it should. The proof follows the loop of \<open>path.Clean\<close> along the
  path up to its last segment, which is copied whole, with or without the version
  behind it.
\<close>

lemma at_end_or_slash_append:
  "rest \<noteq> [] \<Longrightarrow> at_end_or_slash (rest @ sfx) = at_end_or_slash rest"
  by (cases rest) (simp_all add: at_end_or_slash_def)

lemma at_end_or_slash_no_slash:
  "CHR ''/'' \<notin> set rest \<Longrightarrow> at_end_or_slash rest = (rest = [])"
  by (cases rest) (auto simp: at_end_or_slash_def)

lemma takeWhile_no_slash:
  "CHR ''/'' \<notin> set xs \<Longrightarrow> takeWhile (\<lambda>x. x \<noteq> CHR ''/'') xs = xs"
  by (induction xs) auto

lemma dropWhile_no_slash:
  "CHR ''/'' \<notin> set xs \<Longrightarrow> dropWhile (\<lambda>x. x \<noteq> CHR ''/'') xs = []"
  by (induction xs) auto

text \<open>The four branches of the loop, one equation each.\<close>

lemma Clean_loop_slash: "Clean_loop rooted dotdot out (CHR ''/'' # cs) = Clean_loop rooted dotdot out cs"
  by simp

lemma Clean_loop_dot:
  "is_dot (c # cs) \<Longrightarrow> Clean_loop rooted dotdot out (c # cs) = Clean_loop rooted dotdot out cs"
  by (simp add: is_dot_def)

lemma Clean_loop_real:
  assumes "c \<noteq> CHR ''/''" "\<not> is_dot (c # cs)" "\<not> is_dotdot (c # cs)"
  shows "Clean_loop rooted dotdot out (c # cs) =
     Clean_loop rooted dotdot
       ((if rooted \<and> length out \<noteq> 1 \<or> \<not> rooted \<and> length out \<noteq> 0 then out @ ''/'' else out)
          @ takeWhile (\<lambda>x. x \<noteq> CHR ''/'') (c # cs))
       (dropWhile (\<lambda>x. x \<noteq> CHR ''/'') (c # cs))"
proof -
  have 1: "(c = CHR ''/'') = False" using assms(1) by simp
  have 2: "(c = CHR ''.'' \<and> at_end_or_slash cs) = False"
    using assms(2) by (simp add: is_dot_def)
  have 3: "(c = CHR ''.'' \<and> (case cs of [] \<Rightarrow> False
        | d # ds \<Rightarrow> d = CHR ''.'' \<and> at_end_or_slash ds)) = False"
    using assms(3) by (cases cs) (simp_all add: is_dotdot_def)
  show ?thesis
    by (subst Clean_loop.simps) (simp only: 1 2 3 if_False Let_def)
qed

lemma Clean_loop_dotdot:
  assumes "is_dotdot (c # cs)"
  shows "Clean_loop rooted dotdot out (c # cs) =
     (if length out > dotdot then
        Clean_loop rooted dotdot (take (backtrack dotdot out (length out - 1)) out) (tl cs)
      else if \<not> rooted then
        Clean_loop rooted (length ((if length out > 0 then out @ ''/'' else out) @ ''..''))
          ((if length out > 0 then out @ ''/'' else out) @ ''..'') (tl cs)
      else Clean_loop rooted dotdot out (tl cs))"
proof -
  from assms obtain ds where cs: "cs = CHR ''.'' # ds" and c: "c = CHR ''.''"
    and e: "at_end_or_slash ds"
    by (cases cs) (auto simp: is_dotdot_def)
  have 1: "(c = CHR ''/'') = False" using c by simp
  have 2: "(c = CHR ''.'' \<and> at_end_or_slash cs) = False"
    using cs by (simp add: at_end_or_slash_def)
  have 3: "(c = CHR ''.'' \<and> (case cs of [] \<Rightarrow> False
        | d # ds \<Rightarrow> d = CHR ''.'' \<and> at_end_or_slash ds)) = True"
    using c cs e by simp
  show ?thesis
    by (subst Clean_loop.simps) (simp only: 1 2 3 if_False if_True Let_def)
qed


lemma is_dot_append: "cs \<noteq> [] \<Longrightarrow> is_dot (c # cs @ sfx) = is_dot (c # cs)"
  by (simp add: is_dot_def at_end_or_slash_append)

lemma is_dotdot_append:
  "length cs \<ge> 2 \<Longrightarrow> is_dotdot (c # cs @ sfx) = is_dotdot (c # cs)"
proof -
  assume "length cs \<ge> 2"
  then obtain d e es where "cs = d # e # es"
    by (cases cs; cases "tl cs") auto
  then show ?thesis
    using at_end_or_slash_append [of "e # es" sfx] by (simp add: is_dotdot_def)
qed

lemma not_is_dot_element:
  "CHR ''/'' \<notin> set seg \<Longrightarrow> seg \<noteq> ''.'' \<Longrightarrow> \<not> is_dot seg"
  by (cases seg) (auto simp: is_dot_def at_end_or_slash_no_slash)

lemma not_is_dotdot_element:
  "CHR ''/'' \<notin> set seg \<Longrightarrow> seg \<noteq> ''..'' \<Longrightarrow> \<not> is_dotdot seg"
  by (cases seg; cases "tl seg") (auto simp: is_dotdot_def at_end_or_slash_no_slash)

text \<open>A path that is one real element, with no separator in it, is copied in one step.\<close>

lemma Clean_loop_element:
  assumes "CHR ''/'' \<notin> set seg" "seg \<noteq> []" "seg \<noteq> ''.''" "seg \<noteq> ''..''"
  shows "Clean_loop rooted dotdot out seg =
     (if rooted \<and> length out \<noteq> 1 \<or> \<not> rooted \<and> length out \<noteq> 0 then out @ ''/'' else out) @ seg"
proof -
  obtain c cs where s: "seg = c # cs" using assms(2) by (cases seg) auto
  have c: "c \<noteq> CHR ''/''" using assms(1) s by auto
  have "Clean_loop rooted dotdot out (c # cs) =
     Clean_loop rooted dotdot
       ((if rooted \<and> length out \<noteq> 1 \<or> \<not> rooted \<and> length out \<noteq> 0 then out @ ''/'' else out)
          @ takeWhile (\<lambda>x. x \<noteq> CHR ''/'') (c # cs))
       (dropWhile (\<lambda>x. x \<noteq> CHR ''/'') (c # cs))"
    using c not_is_dot_element [OF assms(1,3)] not_is_dotdot_element [OF assms(1,4)]
    unfolding s by (rule Clean_loop_real)
  then show ?thesis
    unfolding s [symmetric] takeWhile_no_slash [OF assms(1)] dropWhile_no_slash [OF assms(1)]
    by (simp only: Clean_loop.simps(1))
qed

lemma last_dropWhile:
  "dropWhile P xs \<noteq> [] \<Longrightarrow> last (dropWhile P xs) = last xs"
  by (induction xs) (auto split: if_splits)

lemma Clean_loop_last_segment:
  assumes seg: "CHR ''/'' \<notin> set seg" "seg \<noteq> []" "seg \<noteq> ''.''" "seg \<noteq> ''..''"
    and sfx: "CHR ''/'' \<notin> set sfx"
  shows "pre = [] \<or> last pre = CHR ''/'' \<Longrightarrow>
     \<exists>out'. Clean_loop rooted dotdot out (pre @ seg) = out' @ seg
          \<and> Clean_loop rooted dotdot out (pre @ seg @ sfx) = out' @ seg @ sfx"
proof (induction "length pre" arbitrary: pre rooted dotdot out rule: less_induct)
  case less
  show ?case
  proof (cases pre)
    case Nil
    have long: "CHR ''/'' \<notin> set (seg @ sfx)" "seg @ sfx \<noteq> []" "seg @ sfx \<noteq> ''.''"
      "seg @ sfx \<noteq> ''..''"
      using seg sfx by (auto simp: append_eq_Cons_conv)
    show ?thesis
      unfolding Nil append_Nil Clean_loop_element [OF seg] Clean_loop_element [OF long]
      by (intro exI [of _ "if rooted \<and> length out \<noteq> 1 \<or> \<not> rooted \<and> length out \<noteq> 0
            then out @ ''/'' else out"]) simp
  next
    case (Cons c ps)
    with less.prems have lastpre: "last (c # ps) = CHR ''/''" by simp
    have tail: "ps = [] \<or> last ps = CHR ''/''" using lastpre by (auto split: if_splits)
    have IH: "length q < length pre \<Longrightarrow> q = [] \<or> last q = CHR ''/'' \<Longrightarrow>
        \<exists>out'. Clean_loop r d b (q @ seg) = out' @ seg
          \<and> Clean_loop r d b (q @ seg @ sfx) = out' @ seg @ sfx" for q r d b
      by (rule less.hyps)
    consider (slash) "c = CHR ''/''"
      | (dot) "c \<noteq> CHR ''/''" "is_dot (c # ps @ seg)"
      | (dotdot) "c \<noteq> CHR ''/''" "\<not> is_dot (c # ps @ seg)" "is_dotdot (c # ps @ seg)"
      | (real) "c \<noteq> CHR ''/''" "\<not> is_dot (c # ps @ seg)" "\<not> is_dotdot (c # ps @ seg)"
      by blast
    then show ?thesis
    proof cases
      case slash
      from IH [of ps rooted dotdot out] tail show ?thesis
        by (simp add: Cons slash del: Clean_loop.simps add: Clean_loop_slash)
    next
      case dot
      from dot(1) lastpre have ne: "ps \<noteq> []" by auto
      from dot(2) have dot': "is_dot (c # (ps @ seg) @ sfx)"
        using is_dot_append [of "ps @ seg" c sfx] seg(2) by simp
      have "Clean_loop rooted dotdot out (c # ps @ seg) = Clean_loop rooted dotdot out (ps @ seg)"
        using dot(2) by (rule Clean_loop_dot)
      moreover have "Clean_loop rooted dotdot out (c # (ps @ seg) @ sfx)
          = Clean_loop rooted dotdot out ((ps @ seg) @ sfx)"
        using dot' by (rule Clean_loop_dot)
      ultimately show ?thesis
        using IH [of ps rooted dotdot out] tail by (simp add: Cons del: Clean_loop.simps)
    next
      case dotdot
      from dotdot(1) lastpre have ne: "ps \<noteq> []" by auto
      from dotdot(3) obtain ds where ds: "ps @ seg = CHR ''.'' # ds"
        by (cases "ps @ seg") (auto simp: is_dotdot_def split: list.splits)
      with ne obtain ps' where ps': "ps = CHR ''.'' # ps'" and ds': "ds = ps' @ seg"
        by (cases ps) auto
      have "ps' \<noteq> []" using lastpre dotdot(1) ps' by (auto split: if_splits)
      then have tail': "last ps' = CHR ''/''" using lastpre ps' by (auto split: if_splits)
      have len: "length (ps @ seg) \<ge> 2" using ne seg(2) by (cases ps; cases seg) auto
      from dotdot(3) have dotdot': "is_dotdot (c # (ps @ seg) @ sfx)"
        using is_dotdot_append [OF len, of c sfx] by simp
      have tl1: "tl (ps @ seg) = ps' @ seg" and tl2: "tl ((ps @ seg) @ sfx) = ps' @ seg @ sfx"
        by (simp_all add: ps')
      have shorter: "length ps' < length pre" by (simp add: Cons ps')
      have "\<exists>d' b'.
          Clean_loop rooted dotdot out (c # ps @ seg) = Clean_loop rooted d' b' (ps' @ seg)
          \<and> Clean_loop rooted dotdot out (c # (ps @ seg) @ sfx)
              = Clean_loop rooted d' b' (ps' @ seg @ sfx)"
        unfolding Clean_loop_dotdot [OF dotdot(3)] Clean_loop_dotdot [OF dotdot'] tl1 tl2
        by (cases "dotdot < length out"; cases rooted)
           (simp_all only: if_True if_False not_True_eq_False not_False_eq_True, blast+)
      then obtain d' b' where
        "Clean_loop rooted dotdot out (c # ps @ seg) = Clean_loop rooted d' b' (ps' @ seg)"
        "Clean_loop rooted dotdot out (c # ps @ seg @ sfx)
           = Clean_loop rooted d' b' (ps' @ seg @ sfx)"
        by auto
      with IH [OF shorter, of rooted d' b'] tail' show ?thesis
        unfolding Cons append_Cons by simp
    next
      case real
      from real(1) lastpre have ne: "ps \<noteq> []" by auto
      have len: "length (ps @ seg) \<ge> 2" using ne seg(2) by (cases ps; cases seg) auto
      have real': "\<not> is_dot (c # (ps @ seg) @ sfx)" "\<not> is_dotdot (c # (ps @ seg) @ sfx)"
        using real(2,3) is_dot_append [of "ps @ seg" c sfx] is_dotdot_append [OF len, of c sfx]
          seg(2) by simp_all
      have slash_in: "\<exists>x \<in> set (c # ps). \<not> x \<noteq> CHR ''/''"
        using lastpre ne by (metis last_in_set list.distinct(1))
      define q where "q = dropWhile (\<lambda>x. x \<noteq> CHR ''/'') (c # ps)"
      have t1: "takeWhile (\<lambda>x. x \<noteq> CHR ''/'') (c # ps @ seg)
          = takeWhile (\<lambda>x. x \<noteq> CHR ''/'') (c # ps)"
        using takeWhile_append1 [of _ "c # ps" "\<lambda>x. x \<noteq> CHR ''/''" seg] slash_in by auto
      have t2: "takeWhile (\<lambda>x. x \<noteq> CHR ''/'') (c # ps @ seg @ sfx)
          = takeWhile (\<lambda>x. x \<noteq> CHR ''/'') (c # ps)"
        using takeWhile_append1 [of _ "c # ps" "\<lambda>x. x \<noteq> CHR ''/''" "seg @ sfx"] slash_in by auto
      have d1: "dropWhile (\<lambda>x. x \<noteq> CHR ''/'') (c # ps @ seg) = q @ seg"
        using dropWhile_append1 [of _ "c # ps" "\<lambda>x. x \<noteq> CHR ''/''" seg] slash_in
        by (auto simp: q_def)
      have d2: "dropWhile (\<lambda>x. x \<noteq> CHR ''/'') (c # ps @ seg @ sfx) = q @ seg @ sfx"
        using dropWhile_append1 [of _ "c # ps" "\<lambda>x. x \<noteq> CHR ''/''" "seg @ sfx"] slash_in
        by (auto simp: q_def)
      have qne: "q \<noteq> []" using slash_in by (auto simp: q_def dropWhile_eq_Nil_conv)
      then have qlast: "last q = CHR ''/''"
        using last_dropWhile [of "\<lambda>x. x \<noteq> CHR ''/''" "c # ps"] lastpre by (simp add: q_def)
      have "length q \<le> length ps"
        using real(1) length_dropWhile_le [of "\<lambda>x. x \<noteq> CHR ''/''" ps] by (simp add: q_def)
      then have shorter: "length q < length pre" by (simp add: Cons)
      define b where "b = (if rooted \<and> length out \<noteq> 1 \<or> \<not> rooted \<and> length out \<noteq> 0
          then out @ ''/'' else out) @ takeWhile (\<lambda>x. x \<noteq> CHR ''/'') (c # ps)"
      have step1: "Clean_loop rooted dotdot out (c # ps @ seg)
          = Clean_loop rooted dotdot b (q @ seg)"
        using Clean_loop_real [OF real(1,2,3), of rooted dotdot out]
        by (simp only: t1 d1 b_def)
      have step2: "Clean_loop rooted dotdot out (c # ps @ seg @ sfx)
          = Clean_loop rooted dotdot b (q @ seg @ sfx)"
        using Clean_loop_real [OF real(1) real', of rooted dotdot out]
        by (simp only: t2 d2 b_def append_assoc)
      from IH [OF shorter, of rooted dotdot b] qlast show ?thesis
        unfolding Cons append_Cons step1 step2 by simp
    qed
  qed
qed


lemma Clean_last_segment:
  assumes seg: "CHR ''/'' \<notin> set seg" "seg \<noteq> []" "seg \<noteq> ''.''" "seg \<noteq> ''..''"
    and sfx: "CHR ''/'' \<notin> set sfx"
    and pre: "pre = [] \<or> last pre = CHR ''/''"
  shows "Clean (pre @ seg @ sfx) = Clean (pre @ seg) @ sfx"
proof (cases pre)
  case Nil
  obtain c cs where s: "seg = c # cs" using seg(2) by (cases seg) auto
  then have c: "c \<noteq> CHR ''/''" using seg(1) by auto
  from Clean_loop_last_segment [OF seg sfx, of "[]" False 0 "[]"]
  obtain out' where "Clean_loop False 0 [] seg = out' @ seg"
    "Clean_loop False 0 [] (seg @ sfx) = out' @ seg @ sfx"
    by auto
  then show ?thesis
    using c seg(2) by (simp add: Clean_def Nil s [symmetric] del: Clean_loop.simps)
      (simp add: s del: Clean_loop.simps)
next
  case (Cons p0 ps)
  show ?thesis
  proof (cases "p0 = CHR ''/''")
    case True
    have "ps = [] \<or> last ps = CHR ''/''" using pre Cons by (auto split: if_splits)
    from Clean_loop_last_segment [OF seg sfx this, of True 1 "''/''"]
    obtain out' where "Clean_loop True 1 ''/'' (ps @ seg) = out' @ seg"
      "Clean_loop True 1 ''/'' (ps @ seg @ sfx) = out' @ seg @ sfx"
      by auto
    then show ?thesis
      using True seg(2) by (simp add: Clean_def Cons del: Clean_loop.simps)
  next
    case False
    from Clean_loop_last_segment [OF seg sfx pre, of False 0 "[]"]
    obtain out' where "Clean_loop False 0 [] (pre @ seg) = out' @ seg"
      "Clean_loop False 0 [] (pre @ seg @ sfx) = out' @ seg @ sfx"
      by auto
    then show ?thesis
      using False seg(2) by (simp add: Clean_def Cons del: Clean_loop.simps)
  qed
qed

text \<open>
  For a package path that ends by a name (its last segment is not empty, \<open>.\<close> or \<open>..\<close>)
  and a version with no separator in it, the target is the join of the module path and the
  package path, followed by \<open>@\<close> and the version.
\<close>

lemma fullPath_last_segment:
  assumes seg: "CHR ''/'' \<notin> set seg" "seg \<noteq> []" "seg \<noteq> ''.''" "seg \<noteq> ''..''"
    and pre: "pre = [] \<or> last pre = CHR ''/''"
    and version: "CHR ''/'' \<notin> set version"
  shows "fullPath modulePath (pre @ seg) version
      = Join [modulePath, pre @ seg] @ ''@'' @ version"
proof -
  define front where "front = (if modulePath = [] then [] else modulePath @ ''/'') @ pre"
  have front: "front = [] \<or> last front = CHR ''/''"
    using pre by (auto simp: front_def)
  have sfx: "CHR ''/'' \<notin> set (''@'' @ version)" using version by simp
  have "fullPath modulePath (pre @ seg) version = Clean (front @ seg @ ''@'' @ version)"
    using seg(2) by (simp add: fullPath_def Join_def front_def)
  also have "\<dots> = Clean (front @ seg) @ ''@'' @ version"
    by (rule Clean_last_segment [OF seg sfx front])
  also have "Clean (front @ seg) = Join [modulePath, pre @ seg]"
    using seg(2) by (simp add: Join_def front_def)
  finally show ?thesis .
qed

lemma fullPath_last_segment_example:
  "fullPath ''example.com//tool/'' ''./cmd//tool'' ''latest'' = ''example.com/tool/cmd/tool@latest''"
proof -
  have join: "Join [''example.com//tool/'', ''./cmd//tool''] = ''example.com/tool/cmd/tool''"
    by (simp add: Join_def Clean_def at_end_or_slash_def)
  from fullPath_last_segment [of "''tool''" "''./cmd//''" "''latest''" "''example.com//tool/''"]
  show ?thesis by (simp add: join)
qed

section \<open>The synchronous attempt: results\<close>

text \<open>
  Claim C3. \<open>Upgrade\<close> skips the install step exactly when the current build information
  is unreadable, or its version is \<open>(devel)\<close>, or its module path is empty. With no build
  information the result is the zero result (no current information, no error); on
  \<open>(devel)\<close> or an empty module path the result carries the build information, has no
  error, and no command was run; otherwise the one command run is \<open>go install\<close> on the
  target built from the module path, the caller's package path and \<open>latest\<close>.
\<close>

theorem Upgrade_gate:
  "Upgrade e w packagePath = (u, w') \<Longrightarrow>
   (case debug_ReadBuildInfo e (ReadBuildInfo_calls w) of
      None \<Rightarrow> u = UpgradeResult_zero \<and> runs w' = runs w
    | Some info \<Rightarrow>
        if Version (Main info) = ''(devel)'' \<or> Path (Main info) = [] then
          u = UpgradeResult_zero\<lparr>CurrentInfo := Some info\<rparr> \<and> runs w' = runs w
        else
          CurrentInfo u = Some info \<and>
          runs w' = runs w @ [[''go'', ''install'',
                               fullPath (Path (Main info)) packagePath ''latest'']])
   \<and> ((runs w' = runs w) =
        (case debug_ReadBuildInfo e (ReadBuildInfo_calls w) of
           None \<Rightarrow> True
         | Some info \<Rightarrow> Version (Main info) = ''(devel)'' \<or> Path (Main info) = []))"
  by (auto simp: Upgrade_def Let_def split: option.splits if_splits)

theorem Upgrade_gate_witness:
  "fst (Upgrade (env_sample None None) world_start ''cmd/tool'') = UpgradeResult_zero
   \<and> runs (snd (Upgrade (env_sample None None) world_start ''cmd/tool'')) = []
   \<and> fst (Upgrade (env_sample (Some (info_of ''example.com/tool'' ''(devel)'')) None)
            world_start ''cmd/tool'')
       = UpgradeResult_zero\<lparr>CurrentInfo := Some (info_of ''example.com/tool'' ''(devel)'')\<rparr>
   \<and> runs (snd (Upgrade (env_sample (Some (info_of ''example.com/tool'' ''(devel)'')) None)
                  world_start ''cmd/tool'')) = []
   \<and> fst (Upgrade (env_sample (Some (info_of [] ''v1.0.0'')) None) world_start ''cmd/tool'')
       = UpgradeResult_zero\<lparr>CurrentInfo := Some (info_of [] ''v1.0.0'')\<rparr>
   \<and> runs (snd (Upgrade (env_sample (Some (info_of [] ''v1.0.0'')) None)
                  world_start ''cmd/tool'')) = []
   \<and> runs (snd (Upgrade (env_sample (Some (info_of ''example.com/tool'' ''v1.0.0'')) None)
                  world_start ''cmd/tool''))
       = [[''go'', ''install'', ''example.com/tool/cmd/tool@latest'']]"
proof -
  have target: "fullPath ''example.com/tool'' ''cmd/tool'' ''latest''
      = ''example.com/tool/cmd/tool@latest''"
    by (simp add: fullPath_def Join_def Clean_def at_end_or_slash_def)
  show ?thesis
    using
      Upgrade_gate [of "env_sample None None" world_start "''cmd/tool''"
        "fst (Upgrade (env_sample None None) world_start ''cmd/tool'')"
        "snd (Upgrade (env_sample None None) world_start ''cmd/tool'')"]
      Upgrade_gate [of "env_sample (Some (info_of ''example.com/tool'' ''(devel)'')) None"
        world_start "''cmd/tool''"
        "fst (Upgrade (env_sample (Some (info_of ''example.com/tool'' ''(devel)'')) None)
               world_start ''cmd/tool'')"
        "snd (Upgrade (env_sample (Some (info_of ''example.com/tool'' ''(devel)'')) None)
               world_start ''cmd/tool'')"]
      Upgrade_gate [of "env_sample (Some (info_of [] ''v1.0.0'')) None"
        world_start "''cmd/tool''"
        "fst (Upgrade (env_sample (Some (info_of [] ''v1.0.0'')) None) world_start ''cmd/tool'')"
        "snd (Upgrade (env_sample (Some (info_of [] ''v1.0.0'')) None) world_start ''cmd/tool'')"]
      Upgrade_gate [of "env_sample (Some (info_of ''example.com/tool'' ''v1.0.0'')) None"
        world_start "''cmd/tool''"
        "fst (Upgrade (env_sample (Some (info_of ''example.com/tool'' ''v1.0.0'')) None)
               world_start ''cmd/tool'')"
        "snd (Upgrade (env_sample (Some (info_of ''example.com/tool'' ''v1.0.0'')) None)
               world_start ''cmd/tool'')"]
    by (simp add: env_sample_def info_of_def world_start_def target)
qed

text \<open>
  The command that \<open>Upgrade(ctx, "")\<close> runs for a released build of a module whose root
  package is the binary: the target has the separator before the \<open>@\<close>.
\<close>

lemma Upgrade_root_package_command:
  "runs (snd (Upgrade (env_sample (Some (info_of ''github.com/melt-inc/autoupgrade'' ''v1.0.0''))
                 None) world_start []))
     = [[''go'', ''install'', ''github.com/melt-inc/autoupgrade/@latest'']]"
  by (simp add: Upgrade_def env_sample_def info_of_def world_start_def Let_def
      fullPath_def Join_def Clean_def at_end_or_slash_def)

text \<open>
  Claim C5. The error of a result of \<open>Upgrade\<close> is non-nil iff the command was run and
  \<open>cmd.Run\<close> returned a non-nil error; it is then that very error, and it is \<open>nil\<close>
  when the command succeeded or was not run. At most one command is run (no retry).
  \<open>DidUpgrade\<close> does not read the error: its value is the same whatever the error field
  holds, and it is true only if the new build information was read and its version
  differs from the current one.
\<close>

theorem Upgrade_ExitError:
  "Upgrade e w packagePath = (u, w') \<Longrightarrow>
   (ExitError u \<noteq> None) =
      (runs w' \<noteq> runs w \<and> cmd_Run e (length (runs w)) (last (runs w')) \<noteq> None)
   \<and> (runs w' \<noteq> runs w \<longrightarrow> ExitError u = cmd_Run e (length (runs w)) (last (runs w')))
   \<and> (runs w' = runs w \<longrightarrow> ExitError u = None)
   \<and> length (runs w') \<le> length (runs w) + 1
   \<and> (\<forall>x w2. fst (DidUpgrade e (u\<lparr>ExitError := x\<rparr>, w2)) = fst (DidUpgrade e (u, w2)))
   \<and> (\<forall>w2. fst (DidUpgrade e (u, w2)) \<longrightarrow>
        (\<exists>cur new. CurrentInfo u = Some cur \<and> fst (fst (NewBuildInfo e (u, w2))) = Some new
           \<and> Version (Main new) \<noteq> Version (Main cur)))"
proof (intro conjI)
  assume up: "Upgrade e w packagePath = (u, w')"
  then show "(ExitError u \<noteq> None) =
      (runs w' \<noteq> runs w \<and> cmd_Run e (length (runs w)) (last (runs w')) \<noteq> None)"
    by (auto simp: Upgrade_def Let_def UpgradeResult_zero_def split: option.splits if_splits)
  from up show "runs w' \<noteq> runs w \<longrightarrow> ExitError u = cmd_Run e (length (runs w)) (last (runs w'))"
    by (auto simp: Upgrade_def Let_def UpgradeResult_zero_def split: option.splits if_splits)
  from up show "runs w' = runs w \<longrightarrow> ExitError u = None"
    by (auto simp: Upgrade_def Let_def UpgradeResult_zero_def split: option.splits if_splits)
  from up show "length (runs w') \<le> length (runs w) + 1"
    by (auto simp: Upgrade_def Let_def split: option.splits if_splits)
  show "\<forall>x w2. fst (DidUpgrade e (u\<lparr>ExitError := x\<rparr>, w2)) = fst (DidUpgrade e (u, w2))"
    by (auto simp: DidUpgrade_def NewBuildInfo_def resolve_def Let_def
        split: option.splits sum.splits prod.splits)
  show "\<forall>w2. fst (DidUpgrade e (u, w2)) \<longrightarrow>
        (\<exists>cur new. CurrentInfo u = Some cur \<and> fst (fst (NewBuildInfo e (u, w2))) = Some new
           \<and> Version (Main new) \<noteq> Version (Main cur))"
    by (auto simp: DidUpgrade_def Let_def split: option.splits if_splits prod.splits)
qed

theorem Upgrade_ExitError_witness:
  "ExitError (fst (Upgrade (env_sample (Some (info_of ''example.com/tool'' ''v1.0.0''))
                       (Some (Error ''exit status 1''))) world_start ''cmd/tool''))
     = Some (Error ''exit status 1'')
   \<and> length (runs (snd (Upgrade (env_sample (Some (info_of ''example.com/tool'' ''v1.0.0''))
                       (Some (Error ''exit status 1''))) world_start ''cmd/tool''))) = 1
   \<and> ExitError (fst (Upgrade (env_sample (Some (info_of ''example.com/tool'' ''v1.0.0'')) None)
                       world_start ''cmd/tool'')) = None
   \<and> fst (DidUpgrade (env_sample (Some (info_of ''example.com/tool'' ''v1.0.0''))
                       (Some (Error ''exit status 1'')))
            (fst (Upgrade (env_sample (Some (info_of ''example.com/tool'' ''v1.0.0''))
                       (Some (Error ''exit status 1''))) world_start ''cmd/tool''), world_start))
     = fst (DidUpgrade (env_sample (Some (info_of ''example.com/tool'' ''v1.0.0''))
                       (Some (Error ''exit status 1'')))
            ((fst (Upgrade (env_sample (Some (info_of ''example.com/tool'' ''v1.0.0''))
                       (Some (Error ''exit status 1''))) world_start ''cmd/tool''))
               \<lparr>ExitError := None\<rparr>, world_start))"
  using
    Upgrade_ExitError [of "env_sample (Some (info_of ''example.com/tool'' ''v1.0.0''))
        (Some (Error ''exit status 1''))" world_start "''cmd/tool''"
      "fst (Upgrade (env_sample (Some (info_of ''example.com/tool'' ''v1.0.0''))
        (Some (Error ''exit status 1''))) world_start ''cmd/tool'')"
      "snd (Upgrade (env_sample (Some (info_of ''example.com/tool'' ''v1.0.0''))
        (Some (Error ''exit status 1''))) world_start ''cmd/tool'')"]
    Upgrade_ExitError [of "env_sample (Some (info_of ''example.com/tool'' ''v1.0.0'')) None"
      world_start "''cmd/tool''"
      "fst (Upgrade (env_sample (Some (info_of ''example.com/tool'' ''v1.0.0'')) None)
        world_start ''cmd/tool'')"
      "snd (Upgrade (env_sample (Some (info_of ''example.com/tool'' ''v1.0.0'')) None)
        world_start ''cmd/tool'')"]
  by (simp add: Upgrade_def env_sample_def info_of_def world_start_def UpgradeResult_zero_def
      DidUpgrade_def NewBuildInfo_def resolve_def Let_def)

section \<open>The accessors: results\<close>

lemma lazy_inv_Upgrade: "lazy_inv (fst (Upgrade e w packagePath))"
  by (simp add: Upgrade_def Let_def lazy_inv_def UpgradeResult_zero_def split: option.splits)

lemma NewBuildInfo_lazy_inv:
  "lazy_inv u \<Longrightarrow> NewBuildInfo e (u, w) = (p, u', w') \<Longrightarrow> lazy_inv u' \<and> once u'"
  by (auto simp: NewBuildInfo_def resolve_def lazy_inv_def Let_def
           split: if_splits sum.splits prod.splits)

lemma NewBuildInfo_cached:
  "once u \<Longrightarrow> NewBuildInfo e (u, w) = ((newInfo u, newInfoErr u), u, w)"
  by (simp add: NewBuildInfo_def)

lemma NewBuildInfo_sets_once:
  "NewBuildInfo e (u, w) = (p, u', w') \<Longrightarrow>
     once u' \<and> p = (newInfo u', newInfoErr u')
     \<and> CurrentInfo u' = CurrentInfo u \<and> ExitError u' = ExitError u"
  by (auto simp: NewBuildInfo_def resolve_def Let_def split: if_splits sum.splits prod.splits)

lemma NewBuildInfo_times_cached:
  "once u \<Longrightarrow>
     NewBuildInfo_times e n (u, w) = (replicate n (newInfo u, newInfoErr u), u, w)"
  by (induction n) (simp_all add: NewBuildInfo_cached)

lemma DidUpgrade_lazy_inv:
  "lazy_inv u \<Longrightarrow> DidUpgrade e (u, w) = (b, u', w') \<Longrightarrow> lazy_inv u'"
  by (auto simp: DidUpgrade_def Let_def split: option.splits if_splits prod.splits
           dest: NewBuildInfo_lazy_inv)

text \<open>
  Claim C4. \<open>DidUpgrade\<close> is false, and touches nothing, if the result has no current
  build information or its version is \<open>(devel)\<close>. Otherwise it calls \<open>NewBuildInfo\<close>
  (which resolves if that was not done yet); it is false if that call returns an error,
  and else it is true iff the version read differs from the current one. The error is
  not lost: every later call of \<open>NewBuildInfo\<close> on the result, in whatever world, returns
  the same pair and reads nothing.
\<close>

theorem DidUpgrade_cases:
  "lazy_inv u \<Longrightarrow> DidUpgrade e (u, w) = (b, u', w') \<Longrightarrow>
   (case CurrentInfo u of
      None \<Rightarrow> \<not> b \<and> u' = u \<and> w' = w
    | Some cur \<Rightarrow>
        if Version (Main cur) = ''(devel)'' then \<not> b \<and> u' = u \<and> w' = w
        else
          (\<exists>new err.
             NewBuildInfo e (u, w) = ((new, err), u', w')
             \<and> (err \<noteq> None \<longrightarrow> \<not> b)
             \<and> (err = None \<longrightarrow>
                  (\<exists>info. new = Some info \<and> b = (Version (Main info) \<noteq> Version (Main cur))))
             \<and> (\<forall>e2 w2. NewBuildInfo e2 (u', w2) = ((new, err), u', w2))))"
proof (cases "CurrentInfo u")
  case None
  assume "DidUpgrade e (u, w) = (b, u', w')"
  with None show ?thesis by (simp add: DidUpgrade_def)
next
  case (Some cur)
  assume inv: "lazy_inv u" and du: "DidUpgrade e (u, w) = (b, u', w')"
  show ?thesis
  proof (cases "Version (Main cur) = ''(devel)''")
    case True
    with Some du show ?thesis by (simp add: DidUpgrade_def)
  next
    case False
    obtain new err u1 w1 where nb: "NewBuildInfo e (u, w) = ((new, err), u1, w1)"
      by (cases "NewBuildInfo e (u, w)") auto
    from du Some False nb have b: "b = (case new of None \<Rightarrow> False
        | Some info \<Rightarrow> Version (Main info) \<noteq> Version (Main cur))"
      and u': "u' = u1" and w': "w' = w1"
      by (simp_all add: DidUpgrade_def)
    from NewBuildInfo_lazy_inv [OF inv nb] have inv1: "lazy_inv u1" and once1: "once u1"
      by simp_all
    from NewBuildInfo_sets_once [OF nb] have pair: "new = newInfo u1" "err = newInfoErr u1"
      by simp_all
    from inv1 once1 pair have excl: "(new = None) = (err \<noteq> None)"
      by (simp add: lazy_inv_def)
    have later: "\<forall>e2 w2. NewBuildInfo e2 (u1, w2) = ((new, err), u1, w2)"
      using NewBuildInfo_cached [OF once1] pair by simp
    from excl b have "err \<noteq> None \<longrightarrow> \<not> b" by auto
    moreover from excl b
    have "err = None \<longrightarrow>
        (\<exists>info. new = Some info \<and> b = (Version (Main info) \<noteq> Version (Main cur)))"
      by (cases new) auto
    ultimately show ?thesis
      using Some False nb later u' w' by simp
  qed
qed

theorem DidUpgrade_cases_witness:
  "lazy_inv (UpgradeResult_zero\<lparr>CurrentInfo := Some (info_of ''example.com/tool'' ''v1.0.0'')\<rparr>)
   \<and> fst (DidUpgrade (env_sample None None)
            (UpgradeResult_zero\<lparr>CurrentInfo := Some (info_of ''example.com/tool'' ''v1.0.0'')\<rparr>,
             world_start)) = True
   \<and> fst (DidUpgrade env_unreadable
            (UpgradeResult_zero\<lparr>CurrentInfo := Some (info_of ''example.com/tool'' ''v1.0.0'')\<rparr>,
             world_start)) = False
   \<and> NewBuildInfo env_unreadable
        (snd (DidUpgrade env_unreadable
            (UpgradeResult_zero\<lparr>CurrentInfo := Some (info_of ''example.com/tool'' ''v1.0.0'')\<rparr>,
             world_start)))
      = ((None, Some (Error ''could not read Go build info'')),
         snd (DidUpgrade env_unreadable
            (UpgradeResult_zero\<lparr>CurrentInfo := Some (info_of ''example.com/tool'' ''v1.0.0'')\<rparr>,
             world_start)))
   \<and> ReadFile_calls (snd (snd (DidUpgrade env_unreadable
            (UpgradeResult_zero\<lparr>CurrentInfo := Some (info_of ''example.com/tool'' ''v1.0.0'')\<rparr>,
             world_start)))) = [''/usr/local/bin/tool'']"
  using
    DidUpgrade_cases [of
      "UpgradeResult_zero\<lparr>CurrentInfo := Some (info_of ''example.com/tool'' ''v1.0.0'')\<rparr>"
      "env_sample None None" world_start
      "fst (DidUpgrade (env_sample None None)
            (UpgradeResult_zero\<lparr>CurrentInfo := Some (info_of ''example.com/tool'' ''v1.0.0'')\<rparr>,
             world_start))"
      "fst (snd (DidUpgrade (env_sample None None)
            (UpgradeResult_zero\<lparr>CurrentInfo := Some (info_of ''example.com/tool'' ''v1.0.0'')\<rparr>,
             world_start)))"
      "snd (snd (DidUpgrade (env_sample None None)
            (UpgradeResult_zero\<lparr>CurrentInfo := Some (info_of ''example.com/tool'' ''v1.0.0'')\<rparr>,
             world_start)))"]
    DidUpgrade_cases [of
      "UpgradeResult_zero\<lparr>CurrentInfo := Some (info_of ''example.com/tool'' ''v1.0.0'')\<rparr>"
      env_unreadable world_start
      "fst (DidUpgrade env_unreadable
            (UpgradeResult_zero\<lparr>CurrentInfo := Some (info_of ''example.com/tool'' ''v1.0.0'')\<rparr>,
             world_start))"
      "fst (snd (DidUpgrade env_unreadable
            (UpgradeResult_zero\<lparr>CurrentInfo := Some (info_of ''example.com/tool'' ''v1.0.0'')\<rparr>,
             world_start)))"
      "snd (snd (DidUpgrade env_unreadable
            (UpgradeResult_zero\<lparr>CurrentInfo := Some (info_of ''example.com/tool'' ''v1.0.0'')\<rparr>,
             world_start)))"]
  by (simp add: lazy_inv_def UpgradeResult_zero_def DidUpgrade_def NewBuildInfo_def resolve_def
      env_unreadable_def env_sample_def info_of_def world_start_def Let_def)

text \<open>
  Claim C10. If \<open>os.Executable\<close> fails at the first call of \<open>NewBuildInfo\<close> on a result,
  \<open>buildinfo.ReadFile\<close> is not called: the call returns \<open>nil\<close> build information with the
  error of \<open>os.Executable\<close>, having resolved the path once and read no file. Every later
  call on the result, however many and in whatever world, returns that same pair and
  leaves the world as it is, so the path is not resolved again.
\<close>

theorem NewBuildInfo_path_error:
  "lazy_inv u \<Longrightarrow> \<not> once u \<Longrightarrow> os_Executable e (Executable_calls w) = Inl err \<Longrightarrow>
   fst (NewBuildInfo e (u, w)) = (None, Some err)
   \<and> snd (snd (NewBuildInfo e (u, w))) = w\<lparr>Executable_calls := Executable_calls w + 1\<rparr>
   \<and> ReadFile_calls (snd (snd (NewBuildInfo e (u, w)))) = ReadFile_calls w
   \<and> (\<forall>e2 w2 n. NewBuildInfo_times e2 n (fst (snd (NewBuildInfo e (u, w))), w2)
         = (replicate n (None, Some err), fst (snd (NewBuildInfo e (u, w))), w2))"
proof -
  assume inv: "lazy_inv u" and fresh: "\<not> once u"
    and exe: "os_Executable e (Executable_calls w) = Inl err"
  define u' where "u' = u\<lparr>newInfoErr := Some err, once := True\<rparr>"
  from inv fresh exe
  have first: "NewBuildInfo e (u, w)
      = ((None, Some err), u', w\<lparr>Executable_calls := Executable_calls w + 1\<rparr>)"
    by (simp add: NewBuildInfo_def resolve_def lazy_inv_def u'_def)
  have "once u'" "newInfo u' = None" "newInfoErr u' = Some err"
    using inv fresh by (simp_all add: u'_def lazy_inv_def)
  then have "NewBuildInfo_times e2 n (u', w2) = (replicate n (None, Some err), u', w2)"
    for e2 w2 n
    using NewBuildInfo_times_cached [of u' e2 n w2] by simp
  with first show ?thesis by simp
qed

theorem NewBuildInfo_path_error_witness:
  "lazy_inv UpgradeResult_zero \<and> \<not> once UpgradeResult_zero
   \<and> os_Executable env_no_path (Executable_calls world_start)
       = Inl (Error ''executable path unknown'')
   \<and> os_Executable env_no_path 1 = Inr ''/usr/local/bin/tool''
   \<and> fst (NewBuildInfo env_no_path (UpgradeResult_zero, world_start))
       = (None, Some (Error ''executable path unknown''))
   \<and> fst (NewBuildInfo_times env_no_path 3
            (snd (NewBuildInfo env_no_path (UpgradeResult_zero, world_start))))
       = [(None, Some (Error ''executable path unknown'')),
          (None, Some (Error ''executable path unknown'')),
          (None, Some (Error ''executable path unknown''))]
   \<and> snd (snd (NewBuildInfo_times env_no_path 3
            (snd (NewBuildInfo env_no_path (UpgradeResult_zero, world_start)))))
       = world_start\<lparr>Executable_calls := 1\<rparr>"
proof -
  have hyps: "lazy_inv UpgradeResult_zero" "\<not> once UpgradeResult_zero"
    "os_Executable env_no_path (Executable_calls world_start)
       = Inl (Error ''executable path unknown'')"
    by (simp_all add: lazy_inv_def UpgradeResult_zero_def env_no_path_def env_sample_def
        world_start_def)
  have later: "os_Executable env_no_path 1 = Inr ''/usr/local/bin/tool''"
    by (simp add: env_no_path_def env_sample_def)
  have split: "snd (NewBuildInfo env_no_path (UpgradeResult_zero, world_start))
      = (fst (snd (NewBuildInfo env_no_path (UpgradeResult_zero, world_start))),
         snd (snd (NewBuildInfo env_no_path (UpgradeResult_zero, world_start))))"
    by simp
  from NewBuildInfo_path_error [OF hyps]
  have first: "fst (NewBuildInfo env_no_path (UpgradeResult_zero, world_start))
        = (None, Some (Error ''executable path unknown''))"
    and world: "snd (snd (NewBuildInfo env_no_path (UpgradeResult_zero, world_start)))
        = world_start\<lparr>Executable_calls := Executable_calls world_start + 1\<rparr>"
    and times: "NewBuildInfo_times env_no_path 3
          (fst (snd (NewBuildInfo env_no_path (UpgradeResult_zero, world_start))),
           snd (snd (NewBuildInfo env_no_path (UpgradeResult_zero, world_start))))
        = (replicate 3 (None, Some (Error ''executable path unknown'')),
           fst (snd (NewBuildInfo env_no_path (UpgradeResult_zero, world_start))),
           snd (snd (NewBuildInfo env_no_path (UpgradeResult_zero, world_start))))"
    by blast+
  have three: "replicate 3 x = [x, x, x]" for x :: "BuildInfo option \<times> error option"
    by (simp add: numeral_3_eq_3)
  have start: "Executable_calls world_start = 0" by (simp add: world_start_def)
  show ?thesis
    using hyps later first
    by (simp add: split [symmetric] times [unfolded split [symmetric]] three world start)
qed

section \<open>The background attempt: results\<close>

text \<open>
  Claim C2. For every context and package path the goroutine of \<open>UpgradeBackground\<close>
  finishes (it neither waits nor panics) having sent exactly one result on the channel and
  then closed it, whether the context is done when the \<open>select\<close> chooses or not: the
  result of \<open>Upgrade\<close>, or, if the context is done and the first case is chosen, the result
  that carries the error of the context. A receiver gets this one result, and from then on
  the report that the channel is closed.
\<close>

theorem UpgradeBackground_delivers_once:
  "(let r = (if ctx \<noteq> None \<and> pick then UpgradeResult_zero\<lparr>ExitError := ctx\<rparr>
             else fst (Upgrade e w packagePath));
        ch = \<lparr>buf = [r], cap = 1, closed = True\<rparr>;
        ch1 = \<lparr>buf = [], cap = 1, closed = True\<rparr>
    in UpgradeBackground e w ctx pick packagePath = (Finished, ch, snd (Upgrade e w packagePath))
       \<and> chan_recv ch = (Finished, Some r, ch1)
       \<and> chan_recv ch1 = (Finished, None, ch1))"
  by (simp add: UpgradeBackground_def UpgradeBackground_go_def make_chan_def chan_send_def
      chan_close_def chan_recv_def Let_def split: prod.splits)

theorem UpgradeBackground_delivers_once_witness:
  "UpgradeBackground (env_sample None None) world_start None False ''cmd/tool''
     = (Finished, \<lparr>buf = [UpgradeResult_zero], cap = 1, closed = True\<rparr>,
        world_start\<lparr>ReadBuildInfo_calls := 1\<rparr>)
   \<and> UpgradeBackground (env_sample None None) world_start
        (Some (Error ''context canceled'')) False ''cmd/tool''
     = (Finished, \<lparr>buf = [UpgradeResult_zero], cap = 1, closed = True\<rparr>,
        world_start\<lparr>ReadBuildInfo_calls := 1\<rparr>)
   \<and> UpgradeBackground (env_sample None None) world_start
        (Some (Error ''context canceled'')) True ''cmd/tool''
     = (Finished,
        \<lparr>buf = [UpgradeResult_zero\<lparr>ExitError := Some (Error ''context canceled'')\<rparr>],
         cap = 1, closed = True\<rparr>,
        world_start\<lparr>ReadBuildInfo_calls := 1\<rparr>)"
proof -
  have up: "Upgrade (env_sample None None) world_start ''cmd/tool''
      = (UpgradeResult_zero, world_start\<lparr>ReadBuildInfo_calls := 1\<rparr>)"
    by (simp add: Upgrade_def env_sample_def world_start_def)
  show ?thesis
    using
      UpgradeBackground_delivers_once [of None False "env_sample None None" world_start
        "''cmd/tool''"]
      UpgradeBackground_delivers_once [of "Some (Error ''context canceled'')" False
        "env_sample None None" world_start "''cmd/tool''"]
      UpgradeBackground_delivers_once [of "Some (Error ''context canceled'')" True
        "env_sample None None" world_start "''cmd/tool''"]
    by (simp add: up Let_def)
qed

text \<open>Every result that \<open>UpgradeBackground\<close> delivers has its lazy fields unresolved.\<close>

lemma lazy_inv_UpgradeBackground:
  "r \<in> set (buf (fst (snd (UpgradeBackground e w ctx pick packagePath)))) \<Longrightarrow>
     lazy_inv r \<and> \<not> once r"
  by (auto simp: UpgradeBackground_def UpgradeBackground_go_def make_chan_def chan_send_def
      chan_close_def Let_def Upgrade_def lazy_inv_def UpgradeResult_zero_def
      split: prod.splits option.splits if_splits)

text \<open>
  Claim C9. When the context is done and the \<open>select\<close> takes the case of \<open>ctx.Done()\<close>,
  the one result delivered has the error of the context as its error and no current build
  information, whatever \<open>Upgrade\<close> has read and done by then. On that result \<open>DidUpgrade\<close>
  is false and leaves the result and the world untouched: nothing is resolved or read.
\<close>

theorem UpgradeBackground_cancelled:
  "UpgradeBackground e w (Some err) True packagePath =
     (Finished, \<lparr>buf = [UpgradeResult_zero\<lparr>ExitError := Some err\<rparr>], cap = 1, closed = True\<rparr>,
      snd (Upgrade e w packagePath))
   \<and> CurrentInfo (UpgradeResult_zero\<lparr>ExitError := Some err\<rparr>) = None
   \<and> ExitError (UpgradeResult_zero\<lparr>ExitError := Some err\<rparr>) = Some err
   \<and> DidUpgrade e2 (UpgradeResult_zero\<lparr>ExitError := Some err\<rparr>, w2)
       = (False, UpgradeResult_zero\<lparr>ExitError := Some err\<rparr>, w2)"
  by (simp add: UpgradeBackground_def UpgradeBackground_go_def make_chan_def chan_send_def
      chan_close_def Let_def DidUpgrade_def UpgradeResult_zero_def split: prod.splits)

theorem UpgradeBackground_cancelled_witness:
  "CurrentInfo (fst (Upgrade (env_sample (Some (info_of ''example.com/tool'' ''v1.0.0'')) None)
                       world_start ''cmd/tool''))
     = Some (info_of ''example.com/tool'' ''v1.0.0'')
   \<and> map CurrentInfo (buf (fst (snd (UpgradeBackground
        (env_sample (Some (info_of ''example.com/tool'' ''v1.0.0'')) None) world_start
        (Some (Error ''context canceled'')) True ''cmd/tool'')))) = [None]
   \<and> map ExitError (buf (fst (snd (UpgradeBackground
        (env_sample (Some (info_of ''example.com/tool'' ''v1.0.0'')) None) world_start
        (Some (Error ''context canceled'')) True ''cmd/tool''))))
     = [Some (Error ''context canceled'')]"
proof -
  have cur: "CurrentInfo (fst (Upgrade
        (env_sample (Some (info_of ''example.com/tool'' ''v1.0.0'')) None)
        world_start ''cmd/tool'')) = Some (info_of ''example.com/tool'' ''v1.0.0'')"
    by (simp add: Upgrade_def env_sample_def info_of_def world_start_def Let_def)
  show ?thesis
    using
      UpgradeBackground_cancelled [of
        "env_sample (Some (info_of ''example.com/tool'' ''v1.0.0'')) None" world_start
        "Error ''context canceled''" "''cmd/tool''"]
    by (simp add: cur)
qed

section \<open>\<open>NewBuildInfo\<close> from several goroutines: results\<close>

subsection \<open>The invariant holds at the start and is kept by every step\<close>



























subsection \<open>What the invariant gives\<close>








text \<open>
  A goroutine that runs alone returns from its call, with the pair of the sequential
  model: the step semantics and \<open>NewBuildInfo\<close> agree.
\<close>

lemma solo_call_returns:
  "\<exists>n. returned (run e (replicate n t) (shared_start u w)) = [(t, fst (NewBuildInfo e (u, w)))]"
proof (cases "once u")
  case True
  then have "returned (run e (replicate 4 t) (shared_start u w))
      = [(t, fst (NewBuildInfo e (u, w)))]"
    by (simp add: numeral_eq_Suc run_def step_def goto_def shared_start_def NewBuildInfo_def)
  then show ?thesis ..
next
  case False
  show ?thesis
  proof (cases "os_Executable e (Executable_calls w)")
    case (Inl err)
    with False have "returned (run e (replicate 11 t) (shared_start u w))
        = [(t, fst (NewBuildInfo e (u, w)))]"
      by (simp add: numeral_eq_Suc run_def step_def goto_def shared_start_def NewBuildInfo_def
          resolve_def)
    then show ?thesis ..
  next
    case (Inr execPath)
    with False have "returned (run e (replicate 13 t) (shared_start u w))
        = [(t, fst (NewBuildInfo e (u, w)))]"
      by (simp add: numeral_eq_Suc run_def step_def goto_def shared_start_def NewBuildInfo_def
          resolve_def split: sum.splits)
    then show ?thesis ..
  qed
qed

end
